theory Spec2Isabelle
  imports Complex_Main "HOL-Library.Char_ord" "HOL-Library.List_Lexorder"
begin

section \<open>The slide-thumbnail pipeline of powerpoint-toolkit/scripts/thumbnails.py\<close>

text \<open>
  The script converts a deck to PDF with \<^verbatim>\<open>soffice\<close>, rasterises the pages with
  \<^verbatim>\<open>pdftoppm\<close> (jpeg first, png if no jpeg file appeared), opens the page images and
  paints them into one grid image.  Everything the script learns from outside (process
  results, directory listings, decoded image sizes) is a field of a \<open>world\<close> record, so
  that the two functions of the source, \<open>generate_thumbnails\<close> and \<open>main\<close>, become
  functions of their arguments and the world.  An exception is \<open>Inl\<close> of a sum type; the
  external processes started and the file written are collected in a trace.
\<close>

subsection \<open>Python values\<close>

datatype pyexn = TimeoutExpired | OSError | ZeroDivisionError | IndexError

text \<open>The object \<^verbatim>\<open>subprocess.run(..., capture_output=True, text=True)\<close> returns.\<close>

record completed =
  returncode :: int
  stderr :: string

text \<open>A decoded image: the file it was opened from and its size in pixels.\<close>

record image =
  source :: string
  width :: int
  height :: int

text \<open>The values of the dictionary that \<open>generate_thumbnails\<close> returns.\<close>

datatype jval = JStr string | JInt int

type_synonym dict = "(string \<times> jval) list"

text \<open>
  \<^verbatim>\<open>str(n)\<close> for an integer, as used in \<^verbatim>\<open>f"Slide {i}"\<close>, \<^verbatim>\<open>f"{rows}x{cols}"\<close> and
  \<^verbatim>\<open>str(dpi)\<close>: decimal digits, with a minus sign for a negative number.
\<close>

fun str_nat :: "nat \<Rightarrow> string" where
  "str_nat n =
     (if n < 10 then [''0123456789'' ! n]
      else str_nat (n div 10) @ [''0123456789'' ! (n mod 10)])"

declare str_nat.simps [simp del]

definition str_int :: "int \<Rightarrow> string" where
  "str_int i = (if i < 0 then CHR ''-'' # str_nat (nat (- i)) else str_nat (nat i))"

text \<open>
  The two arithmetic expressions of the source that go through floating point.
  \<^verbatim>\<open>a / b\<close> on Python integers is the quotient rounded to the nearest double and raises
  ZeroDivisionError for \<open>b = 0\<close>.  For \<open>|a| < 2^53\<close> and a quotient that is not rounded
  to zero, the rounded quotient lies in the same unit interval as the exact one (an exact
  quotient that is not an integer is at least \<open>1/|b|\<close> away from every integer, more than
  half a unit in the last place), so \<^verbatim>\<open>int(a / b)\<close> is the exact quotient truncated
  towards zero and \<^verbatim>\<open>math.ceil(a / b)\<close> is its exact ceiling.  A quotient of magnitude at
  most \<open>2^-1075\<close>, half the smallest positive double, is rounded to zero: this leaves the
  truncation as it is, but the ceiling of a tiny positive quotient becomes 0 instead of 1.
  In line 53 the operands are \<open>400 * height\<close> and \<open>width\<close> of a decoded image; in line 55
  they are the number of opened images, which is far below \<open>2^53\<close>, and \<open>cols\<close>, which
  the command line does not bound.
\<close>

definition int_truediv :: "int \<Rightarrow> int \<Rightarrow> pyexn + int" where
  \<comment> \<open>\<^verbatim>\<open>int(a / b)\<close>\<close>
  "int_truediv a b =
     (if b = 0 then Inl ZeroDivisionError
      else Inr (sgn a * sgn b * (\<bar>a\<bar> div \<bar>b\<bar>)))"

definition ceil_quotient :: "int \<Rightarrow> int \<Rightarrow> int" where
  \<comment> \<open>\<^verbatim>\<open>math.ceil(a / b)\<close> for \<open>b \<noteq> 0\<close>: 0 where the float quotient is \<open>0.0\<close> or \<open>-0.0\<close>\<close>
  "ceil_quotient a b =
     (if \<bar>a\<bar> * 2 ^ 1075 \<le> \<bar>b\<bar> then 0
      else - ((- a) div b))"

definition ceil_truediv :: "int \<Rightarrow> int \<Rightarrow> pyexn + int" where
  \<comment> \<open>\<^verbatim>\<open>math.ceil(a / b)\<close>\<close>
  "ceil_truediv a b =
     (if b = 0 then Inl ZeroDivisionError
      else Inr (ceil_quotient a b))"

subsection \<open>The outside world\<close>

record world =
  path_exists :: "string \<Rightarrow> bool"
    \<comment> \<open>\<^verbatim>\<open>Path(args.file).exists()\<close>, line 94\<close>
  absolute :: "string \<Rightarrow> string"
    \<comment> \<open>\<^verbatim>\<open>str(Path(filepath).absolute())\<close>, line 14\<close>
  tmpdir :: string
    \<comment> \<open>the directory of \<^verbatim>\<open>tempfile.TemporaryDirectory()\<close>, line 16\<close>
  soffice :: "pyexn + completed"
    \<comment> \<open>what the call of line 18 does: raise, or return a result\<close>
  pdf_name :: "string \<Rightarrow> string"
    \<comment> \<open>\<^verbatim>\<open>filepath.with_suffix(".pdf").name\<close>, line 23, for a path that has a file name\<close>
  pdf_path_exists :: bool
    \<comment> \<open>\<^verbatim>\<open>pdf_path.exists()\<close>, line 24\<close>
  pdf_glob :: "string list"
    \<comment> \<open>\<^verbatim>\<open>list(Path(tmpdir).glob("*.pdf"))\<close>, line 26\<close>
  pdftoppm_jpeg :: "pyexn + completed"
    \<comment> \<open>what the call of line 33 does\<close>
  jpg_glob :: "string list"
    \<comment> \<open>\<^verbatim>\<open>Path(tmpdir).glob("slide-*.jpg")\<close>, line 38\<close>
  pdftoppm_png :: "pyexn + completed"
    \<comment> \<open>what the call of line 41 does\<close>
  png_glob :: "string list"
    \<comment> \<open>\<^verbatim>\<open>Path(tmpdir).glob("slide-*.png")\<close>, line 45\<close>
  Image_open :: "string \<Rightarrow> pyexn + image"
    \<comment> \<open>\<^verbatim>\<open>Image.open(str(p))\<close>, line 51\<close>

subsection \<open>The canvas and the trace\<close>

text \<open>
  The calls into Pillow are recorded with their arguments: a canvas is its size and the
  sequence of paste and text operations applied to it, and a saved file is the path with
  the canvas as it is at that moment.  What Pillow itself does with an argument (its own
  checks on a size, the pixels it computes) is outside the script and is not modelled, nor
  are \<^verbatim>\<open>img.close()\<close> and the removal of the temporary directory, which change neither
  the returned value nor the written file.  \<^verbatim>\<open>sorted\<close> on the paths of one directory is
  the lexicographic order of their names.
\<close>

datatype draw_op =
    Paste image "int \<times> int"     \<comment> \<open>\<^verbatim>\<open>grid.paste(thumb, (x, y))\<close>\<close>
  | Label "int \<times> int" string    \<comment> \<open>\<^verbatim>\<open>draw.text((x, y), s, fill="black")\<close>\<close>

record canvas =
  canvas_size :: "int \<times> int"
  ops :: "draw_op list"

datatype event =
    Run "string list"           \<comment> \<open>\<^verbatim>\<open>subprocess.run(argv, ..., timeout=60)\<close>\<close>
  | Save string canvas          \<comment> \<open>\<^verbatim>\<open>grid.save(path, "JPEG", quality=90)\<close>\<close>

definition Image_new :: "int \<times> int \<Rightarrow> canvas" where
  \<comment> \<open>\<^verbatim>\<open>Image.new("RGB", (w, h), "white")\<close>\<close>
  "Image_new wh = \<lparr>canvas_size = wh, ops = []\<rparr>"

definition resize :: "image \<Rightarrow> int \<times> int \<Rightarrow> image" where
  \<comment> \<open>\<^verbatim>\<open>img.resize((w, h), Image.LANCZOS)\<close>: the same picture at the requested size\<close>
  "resize img wh = img\<lparr>width := fst wh, height := snd wh\<rparr>"

subsection \<open>Grid geometry (lines 52 to 60)\<close>

record grid_layout =
  grid_cols :: int
  grid_rows :: int
  thumb_width :: int
  thumb_height :: int
  pad :: int
  label_height :: int
  canvas_w :: int
  canvas_h :: int

definition layout :: "image list \<Rightarrow> int \<Rightarrow> pyexn + grid_layout" where
  "layout images cols =
     (case images of
        [] \<Rightarrow> Inl IndexError
      | first # _ \<Rightarrow>
          (let thumb_w = 400 in
           case int_truediv (thumb_w * height first) (width first) of
             Inl e \<Rightarrow> Inl e
           | Inr thumb_h \<Rightarrow>
               (case ceil_truediv (int (length images)) cols of
                  Inl e \<Rightarrow> Inl e
                | Inr rows \<Rightarrow>
                    (let padding = 10; label_h = 20;
                         grid_w = cols * (thumb_w + padding) + padding;
                         grid_h = rows * (thumb_h + padding + label_h) + padding
                     in Inr \<lparr>grid_cols = cols, grid_rows = rows,
                             thumb_width = thumb_w, thumb_height = thumb_h,
                             pad = padding, label_height = label_h,
                             canvas_w = grid_w, canvas_h = grid_h\<rparr>))))"

subsection \<open>Painting (lines 62 to 75)\<close>

definition cell_x :: "grid_layout \<Rightarrow> nat \<Rightarrow> int" where
  "cell_x L i =
     (let c = int i mod grid_cols L
      in pad L + c * (thumb_width L + pad L))"

definition cell_y :: "grid_layout \<Rightarrow> nat \<Rightarrow> int" where
  "cell_y L i =
     (let r = int i div grid_cols L
      in pad L + r * (thumb_height L + pad L + label_height L))"

definition paint_cell :: "grid_layout \<Rightarrow> canvas \<Rightarrow> nat \<times> image \<Rightarrow> canvas" where
  \<comment> \<open>one pass through the body of the loop of line 67\<close>
  "paint_cell L grid p =
     (case p of (i, img) \<Rightarrow>
        (let x = cell_x L i; y = cell_y L i;
             thumb = resize img (thumb_width L, thumb_height L)
         in grid\<lparr>ops := ops grid @
                    [Paste thumb (x, y + label_height L),
                     Label (x + 4, y + 2) (''Slide '' @ str_int (int i))]\<rparr>))"

fun paint :: "grid_layout \<Rightarrow> canvas \<Rightarrow> (nat \<times> image) list \<Rightarrow> canvas" where
  "paint L grid [] = grid"
| "paint L grid (p # rest) = paint L (paint_cell L grid p) rest"

definition build_grid :: "image list \<Rightarrow> string \<Rightarrow> int \<Rightarrow> (pyexn + dict) \<times> event list" where
  \<comment> \<open>lines 52 to 83\<close>
  "build_grid images output_prefix cols =
     (case layout images cols of
        Inl e \<Rightarrow> (Inl e, [])
      | Inr L \<Rightarrow>
          (let grid = Image_new (canvas_w L, canvas_h L);
               grid = paint L grid (enumerate 0 images);
               output_path = output_prefix @ ''.jpg''
           in (Inr [(''output'', JStr output_path),
                    (''slides'', JInt (int (length images))),
                    (''grid'', JStr (str_int (grid_rows L) @ ''x'' @ str_int cols))],
               [Save output_path grid])))"

subsection \<open>The conversion stages (lines 14 to 51)\<close>

definition locate_pdf :: "world \<Rightarrow> string \<Rightarrow> string option" where
  \<comment> \<open>lines 23 to 29; \<open>None\<close> is the error return of line 28\<close>
  "locate_pdf w filepath =
     (if pdf_path_exists w then Some (tmpdir w @ ''/'' @ pdf_name w filepath)
      else case pdf_glob w of
             [] \<Rightarrow> None
           | p # _ \<Rightarrow> Some p)"

definition pdftoppm_argv :: "world \<Rightarrow> string \<Rightarrow> int \<Rightarrow> string \<Rightarrow> string list" where
  "pdftoppm_argv w enc dpi pdf_path =
     [''pdftoppm'', enc, ''-r'', str_int dpi, pdf_path, tmpdir w @ ''/slide'']"

definition extract_raster ::
  "world \<Rightarrow> string \<Rightarrow> int \<Rightarrow> (pyexn + string list) \<times> event list" where
  \<comment> \<open>lines 32 to 45: the value is \<open>slide_images\<close> as line 47 reads it\<close>
  "extract_raster w pdf_path dpi =
     (let jpeg = Run (pdftoppm_argv w ''-jpeg'' dpi pdf_path);
          png = Run (pdftoppm_argv w ''-png'' dpi pdf_path)
      in case pdftoppm_jpeg w of
           Inl e \<Rightarrow> (Inl e, [jpeg])
         | Inr result \<Rightarrow>
             (let slide_images = sort (jpg_glob w)
              in if slide_images = [] then
                   (case pdftoppm_png w of
                      Inl e \<Rightarrow> (Inl e, [jpeg, png])
                    | Inr result \<Rightarrow> (Inr (sort (png_glob w)), [jpeg, png]))
                 else (Inr slide_images, [jpeg])))"

fun load_images :: "world \<Rightarrow> string list \<Rightarrow> pyexn + image list" where
  \<comment> \<open>the list comprehension of line 51: the first failing \<^verbatim>\<open>Image.open\<close> raises\<close>
  "load_images w [] = Inr []"
| "load_images w (p # ps) =
     (case Image_open w p of
        Inl e \<Rightarrow> Inl e
      | Inr img \<Rightarrow>
          (case load_images w ps of
             Inl e \<Rightarrow> Inl e
           | Inr imgs \<Rightarrow> Inr (img # imgs)))"

definition compose ::
  "world \<Rightarrow> string list \<Rightarrow> string \<Rightarrow> int \<Rightarrow> (pyexn + dict) \<times> event list" where
  \<comment> \<open>lines 47 to 83\<close>
  "compose w slide_images output_prefix cols =
     (if slide_images = [] then
        (Inr [(''error'', JStr
           ''Failed to convert PDF pages to images. Ensure pdftoppm (poppler) is installed.'')],
         [])
      else case load_images w slide_images of
             Inl e \<Rightarrow> (Inl e, [])
           | Inr images \<Rightarrow> build_grid images output_prefix cols)"

definition soffice_argv :: "world \<Rightarrow> string \<Rightarrow> string list" where
  "soffice_argv w filepath =
     [''soffice'', ''--headless'', ''--convert-to'', ''pdf'', ''--outdir'', tmpdir w, filepath]"

definition generate_thumbnails ::
  "world \<Rightarrow> string \<Rightarrow> string \<Rightarrow> int \<Rightarrow> int \<Rightarrow> (pyexn + dict) \<times> event list" where
  "generate_thumbnails w filepath output_prefix cols dpi =
     (let filepath = absolute w filepath;
          render = Run (soffice_argv w filepath)
      in case soffice w of
           Inl e \<Rightarrow> (Inl e, [render])
         | Inr result \<Rightarrow>
             (case locate_pdf w filepath of
                None \<Rightarrow>
                  (Inr [(''error'', JStr (''PDF conversion failed: '' @ stderr result))],
                   [render])
              | Some pdf_path \<Rightarrow>
                  (case extract_raster w pdf_path dpi of
                     (Inl e, spawned) \<Rightarrow> (Inl e, render # spawned)
                   | (Inr slide_images, spawned) \<Rightarrow>
                       (case compose w slide_images output_prefix cols of
                          (r, written) \<Rightarrow> (r, render # spawned @ written)))))"

subsection \<open>The command line program (lines 86 to 100)\<close>

datatype printed =
    Plain string     \<comment> \<open>\<^verbatim>\<open>print(s)\<close>\<close>
  | Json dict        \<comment> \<open>\<^verbatim>\<open>print(json.dumps(d, indent=2))\<close>\<close>

record run =
  stdout :: "printed list"
  exit_status :: int
  trace :: "event list"

definition main :: "world \<Rightarrow> string \<Rightarrow> string \<Rightarrow> int \<Rightarrow> int \<Rightarrow> run" where
  \<comment> \<open>the arguments are the parsed \<^verbatim>\<open>args.file\<close>, \<^verbatim>\<open>args.output\<close>, \<^verbatim>\<open>args.cols\<close>, \<^verbatim>\<open>args.dpi\<close>;
      an exception that leaves \<open>main\<close> ends the interpreter with status 1\<close>
  "main w file output cols dpi =
     (if \<not> path_exists w file then
        \<lparr>stdout = [Plain (''Error: File not found: '' @ file)], exit_status = 1, trace = []\<rparr>
      else case generate_thumbnails w file output cols dpi of
             (Inr result, evs) \<Rightarrow> \<lparr>stdout = [Json result], exit_status = 0, trace = evs\<rparr>
           | (Inl e, evs) \<Rightarrow> \<lparr>stdout = [], exit_status = 1, trace = evs\<rparr>)"

subsection \<open>Sample inputs\<close>

text \<open>
  A 16:9 slide rendered at 150 dpi is 2000 by 1125 pixels; a 1600 by 1067 page is one
  whose thumbnail height is not a whole number (266.75).
\<close>

definition page :: "string \<Rightarrow> image" where
  "page p = \<lparr>source = p, width = 2000, height = 1125\<rparr>"

definition odd_page :: "string \<Rightarrow> image" where
  "odd_page p = \<lparr>source = p, width = 1600, height = 1067\<rparr>"


definition three_pages :: "image list" where
  "three_pages =
     [page ''/tmp/tmpx/slide-1.jpg'', odd_page ''/tmp/tmpx/slide-2.jpg'',
      page ''/tmp/tmpx/slide-3.jpg'']"

definition exited_ok :: completed where
  "exited_ok = \<lparr>returncode = 0, stderr = []\<rparr>"

text \<open>A run in which both converters work and the jpeg extraction gives three pages.\<close>

definition good_world :: world where
  "good_world =
     \<lparr>path_exists = (\<lambda>p. p = ''deck.pptx''),
      absolute = (\<lambda>p. ''/work/'' @ p),
      tmpdir = ''/tmp/tmpx'',
      soffice = Inr exited_ok,
      pdf_name = (\<lambda>p. ''deck.pdf''),
      pdf_path_exists = True,
      pdf_glob = [''/tmp/tmpx/deck.pdf''],
      pdftoppm_jpeg = Inr exited_ok,
      jpg_glob = [''/tmp/tmpx/slide-3.jpg'', ''/tmp/tmpx/slide-1.jpg'', ''/tmp/tmpx/slide-2.jpg''],
      pdftoppm_png = Inr exited_ok,
      png_glob = [],
      Image_open =
        (\<lambda>p. if p = ''/tmp/tmpx/slide-2.jpg'' then Inr (odd_page p) else Inr (page p))\<rparr>"


text \<open>Neither extraction leaves a file.\<close>

definition no_raster_world :: world where
  "no_raster_world = good_world\<lparr>jpg_glob := [], png_glob := []\<rparr>"

text \<open>The renderer exits with status 1 and leaves no PDF file.\<close>

definition no_pdf_world :: world where
  "no_pdf_world =
     good_world\<lparr>soffice := Inr \<lparr>returncode = 1, stderr = ''Error: source file could not be loaded''\<rparr>,
                 pdf_path_exists := False, pdf_glob := []\<rparr>"

text \<open>The renderer exits with status 1 although it wrote the PDF file.\<close>

definition renderer_status_world :: world where
  "renderer_status_world =
     good_world\<lparr>soffice := Inr \<lparr>returncode = 1, stderr = ''javaldx: Could not find a Java Runtime Environment!''\<rparr>\<rparr>"

text \<open>The renderer, or the jpeg extraction, does not finish within 60 seconds.\<close>

definition renderer_timeout_world :: world where
  "renderer_timeout_world = good_world\<lparr>soffice := Inl TimeoutExpired\<rparr>"

definition extractor_timeout_world :: world where
  "extractor_timeout_world = good_world\<lparr>pdftoppm_jpeg := Inl TimeoutExpired\<rparr>"




subsection \<open>Reading a run\<close>

text \<open>
  The two shapes of the dictionary that \<open>generate_thumbnails\<close> returns, and the kinds of
  event in a trace: the png extraction (the fallback), and the write of the output file.
\<close>

fun is_success :: "dict \<Rightarrow> bool" where
  "is_success [(k1, JStr p), (k2, JInt n), (k3, JStr s)] =
     (k1 = ''output'' \<and> k2 = ''slides'' \<and> k3 = ''grid'')"
| "is_success d = False"

fun is_error :: "dict \<Rightarrow> bool" where
  "is_error [(k, JStr m)] = (k = ''error'')"
| "is_error d = False"

fun is_fallback :: "event \<Rightarrow> bool" where
  "is_fallback (Run argv) = (take 2 argv = [''pdftoppm'', ''-png''])"
| "is_fallback (Save p g) = False"

fun is_write :: "event \<Rightarrow> bool" where
  "is_write (Save p g) = True"
| "is_write (Run argv) = False"

section \<open>Properties\<close>

subsection \<open>The painting loop\<close>


lemma paint_cell_ops:
  "ops (paint_cell L g (i, img)) = ops g @
     [Paste (resize img (thumb_width L, thumb_height L)) (cell_x L i, cell_y L i + label_height L),
      Label (cell_x L i + 4, cell_y L i + 2) (''Slide '' @ str_int (int i))]"
  by (simp add: paint_cell_def Let_def)


lemma paint_length: "length (ops (paint L g ps)) = length (ops g) + 2 * length ps"
proof (induction ps arbitrary: g)
  case Nil
  then show ?case by simp
next
  case (Cons p ps)
  then show ?case by (cases p) (simp add: paint_cell_ops)
qed

text \<open>Later passes of the loop leave what is already on the canvas in place.\<close>

lemma paint_keeps: "k < length (ops g) \<Longrightarrow> ops (paint L g ps) ! k = ops g ! k"
proof (induction ps arbitrary: g)
  case Nil
  then show ?case by simp
next
  case (Cons p ps)
  obtain i img where p: "p = (i, img)" by (cases p)
  have "k < length (ops (paint_cell L g p))"
    using Cons.prems by (simp add: p paint_cell_ops)
  then have "ops (paint L (paint_cell L g p) ps) ! k = ops (paint_cell L g p) ! k"
    by (rule Cons.IH)
  then show ?case using Cons.prems by (simp add: p paint_cell_ops nth_append)
qed

text \<open>The \<open>j\<close>-th pass adds one paste and one label, at positions \<open>2j\<close> and \<open>2j + 1\<close>.\<close>

lemma paint_nth:
  "j < length ps \<Longrightarrow>
   ops (paint L g ps) ! (length (ops g) + 2 * j) =
     Paste (resize (snd (ps ! j)) (thumb_width L, thumb_height L))
           (cell_x L (fst (ps ! j)), cell_y L (fst (ps ! j)) + label_height L) \<and>
   ops (paint L g ps) ! (length (ops g) + 2 * j + 1) =
     Label (cell_x L (fst (ps ! j)) + 4, cell_y L (fst (ps ! j)) + 2)
           (''Slide '' @ str_int (int (fst (ps ! j))))"
proof (induction ps arbitrary: g j)
  case Nil
  then show ?case by simp
next
  case (Cons p ps)
  obtain i img where p: "p = (i, img)" by (cases p)
  let ?g = "paint_cell L g p"
  have len: "length (ops ?g) = length (ops g) + 2" by (simp add: p paint_cell_ops)
  show ?case
  proof (cases j)
    case 0
    have "ops (paint L ?g ps) ! (length (ops g)) = ops ?g ! (length (ops g))"
      by (rule paint_keeps) (simp add: len)
    moreover have "ops (paint L ?g ps) ! (length (ops g) + 1) = ops ?g ! (length (ops g) + 1)"
      by (rule paint_keeps) (simp add: len)
    ultimately show ?thesis using 0 by (simp add: p paint_cell_ops nth_append)
  next
    case (Suc j')
    then have "j' < length ps" using Cons.prems by simp
    from Cons.IH [OF this, of ?g] show ?thesis
      by (simp add: Suc len add.commute add.left_commute)
  qed
qed

subsection \<open>The geometry in closed form\<close>

lemma layout_Inr:
  assumes "images \<noteq> []" and "cols \<noteq> 0" and "width (hd images) \<noteq> 0"
  shows "layout images cols = Inr
     \<lparr>grid_cols = cols, grid_rows = ceil_quotient (int (length images)) cols,
      thumb_width = 400,
      thumb_height = sgn (400 * height (hd images)) * sgn (width (hd images)) *
                     (\<bar>400 * height (hd images)\<bar> div \<bar>width (hd images)\<bar>),
      pad = 10, label_height = 20,
      canvas_w = cols * (400 + 10) + 10,
      canvas_h = ceil_quotient (int (length images)) cols *
          (sgn (400 * height (hd images)) * sgn (width (hd images)) *
                     (\<bar>400 * height (hd images)\<bar> div \<bar>width (hd images)\<bar>) + 10 + 20) + 10\<rparr>"
  using assms by (cases images) (simp_all add: layout_def int_truediv_def ceil_truediv_def Let_def)

lemma build_grid_Inr:
  "layout images cols = Inr L \<Longrightarrow>
   build_grid images output_prefix cols =
     (Inr [(''output'', JStr (output_prefix @ ''.jpg'')),
           (''slides'', JInt (int (length images))),
           (''grid'', JStr (str_int (grid_rows L) @ ''x'' @ str_int cols))],
      [Save (output_prefix @ ''.jpg'')
         (paint L (Image_new (canvas_w L, canvas_h L)) (enumerate 0 images))])"
  by (simp add: build_grid_def Let_def)

lemma build_grid_Inl:
  "layout images cols = Inl e \<Longrightarrow> build_grid images output_prefix cols = (Inl e, [])"
  by (simp add: build_grid_def)

subsection \<open>Arithmetic of the grid\<close>






lemma thumb_height_floor:
  assumes "0 < w" and "0 \<le> h"
  shows "sgn (400 * h) * sgn w * (\<bar>400 * h\<bar> div \<bar>w\<bar>) = (400 * h) div (w::int)"
proof (cases "h = 0")
  case True
  then show ?thesis by simp
next
  case False
  with assms have "0 < h" by simp
  with assms show ?thesis by (simp add: sgn_mult)
qed

lemma saved_ops:
  assumes "i < length images"
  shows "ops (paint L (Image_new s) (enumerate 0 images)) ! (2 * i) =
           Paste (resize (images ! i) (thumb_width L, thumb_height L))
                 (cell_x L i, cell_y L i + label_height L)"
    and "ops (paint L (Image_new s) (enumerate 0 images)) ! Suc (2 * i) =
           Label (cell_x L i + 4, cell_y L i + 2) (''Slide '' @ str_int (int i))"
  using paint_nth [of i "enumerate 0 images" L "Image_new s"] assms
  by (simp_all add: Image_new_def nth_enumerate_eq)

lemma saved_length:
  "length (ops (paint L (Image_new s) (enumerate 0 images))) = 2 * length images"
  by (simp add: paint_length Image_new_def)

subsection \<open>The pipeline stage by stage\<close>



lemma build_grid_shapes:
  "(\<exists>e. build_grid images output_prefix cols = (Inl e, [])) \<or>
   (\<exists>d g. build_grid images output_prefix cols = (Inr d, [Save (output_prefix @ ''.jpg'') g])
      \<and> is_success d \<and> \<not> is_error d)"
  by (cases "layout images cols") (simp_all add: build_grid_Inl build_grid_Inr)

lemma compose_shapes:
  "(\<exists>e. compose w slide_images output_prefix cols = (Inl e, [])) \<or>
   (\<exists>d. compose w slide_images output_prefix cols = (Inr d, [])
      \<and> is_error d \<and> \<not> is_success d) \<or>
   (\<exists>d g. compose w slide_images output_prefix cols =
        (Inr d, [Save (output_prefix @ ''.jpg'') g])
      \<and> is_success d \<and> \<not> is_error d)"
proof (cases "slide_images = []")
  case True
  then show ?thesis by (simp add: compose_def)
next
  case False
  show ?thesis
  proof (cases "load_images w slide_images")
    case (Inl e)
    with False show ?thesis by (simp add: compose_def)
  next
    case (Inr images)
    with False build_grid_shapes [of images output_prefix cols] show ?thesis
      by (auto simp add: compose_def)
  qed
qed




lemma fallback_events [simp]:
  "\<not> is_fallback (Run (soffice_argv w p))"
  "\<not> is_fallback (Run (pdftoppm_argv w ''-jpeg'' dpi pdf))"
  "is_fallback (Run (pdftoppm_argv w ''-png'' dpi pdf))"
  by (simp_all add: soffice_argv_def pdftoppm_argv_def)

lemma generate_thumbnails_rendered:
  assumes "soffice w = Inr r0" and "locate_pdf w (absolute w f) = Some pdf"
  shows "generate_thumbnails w f output_prefix cols dpi =
    (case extract_raster w pdf dpi of
       (Inl e, spawned) \<Rightarrow> (Inl e, Run (soffice_argv w (absolute w f)) # spawned)
     | (Inr slide_images, spawned) \<Rightarrow>
         (case compose w slide_images output_prefix cols of
            (r, written) \<Rightarrow> (r, Run (soffice_argv w (absolute w f)) # spawned @ written)))"
  using assms by (simp add: generate_thumbnails_def Let_def)

lemma generate_thumbnails_no_pdf:
  assumes "soffice w = Inr r0" and "locate_pdf w (absolute w f) = None"
  shows "generate_thumbnails w f output_prefix cols dpi =
    (Inr [(''error'', JStr (''PDF conversion failed: '' @ stderr r0))],
     [Run (soffice_argv w (absolute w f))])"
  using assms by (simp add: generate_thumbnails_def Let_def)

lemma generate_thumbnails_raised:
  assumes "soffice w = Inl e"
  shows "generate_thumbnails w f output_prefix cols dpi =
    (Inl e, [Run (soffice_argv w (absolute w f))])"
  using assms by (simp add: generate_thumbnails_def Let_def)

lemma extract_raster_no_write:
  "\<forall>ev \<in> set (snd (extract_raster w pdf dpi)). \<not> is_write ev"
  by (simp add: extract_raster_def Let_def split: sum.splits)

lemma generate_thumbnails_shapes:
  "(\<exists>e tr. generate_thumbnails w f output_prefix cols dpi = (Inl e, tr)
      \<and> (\<forall>ev \<in> set tr. \<not> is_write ev)) \<or>
   (\<exists>d tr. generate_thumbnails w f output_prefix cols dpi = (Inr d, tr)
      \<and> is_error d \<and> \<not> is_success d \<and> (\<forall>ev \<in> set tr. \<not> is_write ev)) \<or>
   (\<exists>d tr g. generate_thumbnails w f output_prefix cols dpi =
        (Inr d, tr @ [Save (output_prefix @ ''.jpg'') g])
      \<and> is_success d \<and> \<not> is_error d \<and> (\<forall>ev \<in> set tr. \<not> is_write ev))"
proof (cases "soffice w")
  case (Inl e)
  then show ?thesis by (simp add: generate_thumbnails_raised)
next
  case (Inr r0)
  show ?thesis
  proof (cases "locate_pdf w (absolute w f)")
    case None
    with Inr show ?thesis by (simp add: generate_thumbnails_no_pdf)
  next
    case (Some pdf)
    note gt = generate_thumbnails_rendered [OF Inr Some, of output_prefix cols dpi]
    obtain r spawned where ex: "extract_raster w pdf dpi = (r, spawned)"
      by (cases "extract_raster w pdf dpi")
    with extract_raster_no_write [of w pdf dpi]
    have nw: "\<forall>ev \<in> set spawned. \<not> is_write ev" by simp
    show ?thesis
    proof (cases r)
      case (Inl e)
      with nw show ?thesis by (simp add: gt ex)
    next
      case (Inr slide_images)
      from compose_shapes [of w slide_images output_prefix cols] show ?thesis
      proof (elim disjE exE conjE)
        fix e
        assume "compose w slide_images output_prefix cols = (Inl e, [])"
        with nw show ?thesis by (simp add: gt ex Inr)
      next
        fix d
        assume "compose w slide_images output_prefix cols = (Inr d, [])"
          and "is_error d" and "\<not> is_success d"
        with nw show ?thesis by (simp add: gt ex Inr)
      next
        fix d g
        assume c: "compose w slide_images output_prefix cols =
            (Inr d, [Save (output_prefix @ ''.jpg'') g])"
          and d: "is_success d" "\<not> is_error d"
        have "generate_thumbnails w f output_prefix cols dpi =
            (Inr d, (Run (soffice_argv w (absolute w f)) # spawned) @
                    [Save (output_prefix @ ''.jpg'') g])"
          by (simp add: gt ex Inr c)
        moreover have "\<forall>ev \<in> set (Run (soffice_argv w (absolute w f)) # spawned). \<not> is_write ev"
          using nw by simp
        ultimately show ?thesis using d by blast
      qed
    qed
  qed
qed

lemma load_images_soffice [simp]: "load_images (w\<lparr>soffice := x\<rparr>) ps = load_images w ps"
  by (induction ps) (simp_all split: sum.splits)

lemma stages_soffice [simp]:
  "locate_pdf (w\<lparr>soffice := x\<rparr>) p = locate_pdf w p"
  "extract_raster (w\<lparr>soffice := x\<rparr>) pdf dpi = extract_raster w pdf dpi"
  "compose (w\<lparr>soffice := x\<rparr>) slide_images output_prefix cols =
     compose w slide_images output_prefix cols"
  "soffice_argv (w\<lparr>soffice := x\<rparr>) p = soffice_argv w p"
  by (simp_all add: locate_pdf_def extract_raster_def compose_def soffice_argv_def
        pdftoppm_argv_def Let_def split: sum.splits)

lemma load_images_jpg_glob [simp]: "load_images (w\<lparr>jpg_glob := x\<rparr>) ps = load_images w ps"
  by (induction ps) (simp_all split: sum.splits)

lemma compose_jpg_glob [simp]:
  "compose (w\<lparr>jpg_glob := x\<rparr>) slide_images output_prefix cols =
     compose w slide_images output_prefix cols"
  by (simp add: compose_def)


section \<open>Claims\<close>




text \<open>
  C2 (as amended).  The shared thumbnail height is 400 * height / width of the first
  image with the fraction cut off (line 53 applies \<^verbatim>\<open>int\<close>, not \<^verbatim>\<open>round\<close>), and every
  image of the sequence, whatever its own size, is pasted at exactly 400 by that height.
\<close>

theorem C2_shared_thumbnail_height:
  assumes "images \<noteq> []" and "1 \<le> cols"
    and "0 < width (hd images)" and "0 \<le> height (hd images)"
  shows "\<exists>L g. layout images cols = Inr L
     \<and> thumb_height L =
         \<lfloor>400 * real_of_int (height (hd images)) / real_of_int (width (hd images))\<rfloor>
     \<and> snd (build_grid images output_prefix cols) = [Save (output_prefix @ ''.jpg'') g]
     \<and> length (ops g) = 2 * length images
     \<and> (\<forall>i<length images. \<exists>thumb xy. ops g ! (2 * i) = Paste thumb xy
            \<and> source thumb = source (images ! i)
            \<and> width thumb = 400 \<and> height thumb = thumb_height L)"
proof -
  from assms have "cols \<noteq> 0" and "width (hd images) \<noteq> 0" by simp_all
  note L = layout_Inr [OF assms(1) this]
  have "\<lfloor>real_of_int (400 * height (hd images)) / real_of_int (width (hd images))\<rfloor>
          = 400 * height (hd images) div width (hd images)"
    by (rule floor_divide_of_int_eq)
  then have fl: "\<lfloor>400 * real_of_int (height (hd images)) / real_of_int (width (hd images))\<rfloor>
          = 400 * height (hd images) div width (hd images)"
    by simp
  show ?thesis
    by (simp add: build_grid_Inr [OF L] L fl thumb_height_floor [OF assms(3,4)]
          saved_length saved_ops resize_def)
qed

theorem C2_shared_thumbnail_height_witness:
  "three_pages \<noteq> [] \<and> (1::int) \<le> 2
   \<and> 0 < width (hd three_pages) \<and> 0 \<le> height (hd three_pages)
   \<and> width (three_pages ! 1) = 1600 \<and> height (three_pages ! 1) = 1067
   \<and> (\<exists>L g. layout three_pages 2 = Inr L \<and> thumb_height L = 225
        \<and> snd (build_grid three_pages ''thumbnails'' 2) = [Save ''thumbnails.jpg'' g]
        \<and> length (ops g) = 6
        \<and> (\<forall>i<3. \<exists>thumb xy. ops g ! (2 * i) = Paste thumb xy
              \<and> source thumb = source (three_pages ! i)
              \<and> width thumb = 400 \<and> height thumb = 225))"
  using C2_shared_thumbnail_height [of three_pages 2 "''thumbnails''"]
  by (simp add: three_pages_def page_def odd_page_def layout_def int_truediv_def
        ceil_truediv_def ceil_quotient_def build_grid_def Let_def)

theorem C2_round_counterexample:
  "layout [odd_page ''/tmp/tmpx/slide-1.jpg''] 4 =
     Inr \<lparr>grid_cols = 4, grid_rows = 1, thumb_width = 400, thumb_height = 266,
          pad = 10, label_height = 20, canvas_w = 1650, canvas_h = 306\<rparr>
   \<and> round (400 * real_of_int (height (odd_page ''/tmp/tmpx/slide-1.jpg''))
              / real_of_int (width (odd_page ''/tmp/tmpx/slide-1.jpg''))) = 267"
  by (simp add: odd_page_def layout_def int_truediv_def ceil_truediv_def ceil_quotient_def Let_def round_def)




text \<open>
  C4.  For an input path that does not exist the program exits with status 1 and starts no
  external process, but what it prints is the plain line "Error: File not found: <file>"
  (line 95), not the JSON object with an error field.
\<close>

theorem C4_missing_file_output:
  "main good_world ''missing.pptx'' ''thumbnails'' 4 150 =
     \<lparr>stdout = [Plain ''Error: File not found: missing.pptx''], exit_status = 1, trace = []\<rparr>
   \<and> stdout (main good_world ''missing.pptx'' ''thumbnails'' 4 150) \<noteq>
       [Json [(''error'', JStr ''File not found: missing.pptx'')]]"
  by (simp add: main_def good_world_def)

text \<open>
  C5 (as amended).  For every run in which the pipeline returns an error payload, the
  program prints that payload as a JSON object with an error field on standard output,
  and no output file is written.
\<close>

theorem C5_pipeline_error_reported:
  assumes "path_exists w f"
    and "fst (generate_thumbnails w f output_prefix cols dpi) = Inr d" and "is_error d"
  shows "stdout (main w f output_prefix cols dpi) = [Json d]
     \<and> trace (main w f output_prefix cols dpi) = snd (generate_thumbnails w f output_prefix cols dpi)
     \<and> \<not> (\<exists>ev \<in> set (trace (main w f output_prefix cols dpi)). is_write ev)"
proof -
  have ex: "path_exists w f" by (rule assms(1))
  obtain tr where gt: "generate_thumbnails w f output_prefix cols dpi = (Inr d, tr)"
    using assms(2) by (cases "generate_thumbnails w f output_prefix cols dpi") simp
  from generate_thumbnails_shapes [of w f output_prefix cols dpi] assms(3)
  have "\<forall>ev \<in> set tr. \<not> is_write ev" by (auto simp add: gt)
  then show ?thesis using ex by (simp add: main_def gt)
qed

theorem C5_pipeline_error_reported_witness:
  "path_exists no_pdf_world ''deck.pptx''
   \<and> fst (generate_thumbnails no_pdf_world ''deck.pptx'' ''thumbnails'' 4 150) =
       Inr [(''error'', JStr ''PDF conversion failed: Error: source file could not be loaded'')]
   \<and> is_error [(''error'', JStr ''PDF conversion failed: Error: source file could not be loaded'')]
   \<and> stdout (main no_pdf_world ''deck.pptx'' ''thumbnails'' 4 150) =
       [Json [(''error'', JStr ''PDF conversion failed: Error: source file could not be loaded'')]]
   \<and> trace (main no_pdf_world ''deck.pptx'' ''thumbnails'' 4 150) =
       [Run (soffice_argv no_pdf_world ''/work/deck.pptx'')]
   \<and> \<not> (\<exists>ev \<in> set (trace (main no_pdf_world ''deck.pptx'' ''thumbnails'' 4 150)). is_write ev)"
  using C5_pipeline_error_reported [of no_pdf_world "''deck.pptx''" "''thumbnails''" 4 150
      "[(''error'', JStr ''PDF conversion failed: Error: source file could not be loaded'')]"]
  by (simp add: main_def generate_thumbnails_def locate_pdf_def no_pdf_world_def good_world_def
        Let_def)

theorem C5_exit_status_counterexample:
  "main no_raster_world ''deck.pptx'' ''thumbnails'' 4 150 =
     \<lparr>stdout = [Json [(''error'', JStr
        ''Failed to convert PDF pages to images. Ensure pdftoppm (poppler) is installed.'')]],
      exit_status = 0,
      trace = [Run (soffice_argv no_raster_world ''/work/deck.pptx''),
               Run (pdftoppm_argv no_raster_world ''-jpeg'' 150 ''/tmp/tmpx/deck.pdf''),
               Run (pdftoppm_argv no_raster_world ''-png'' 150 ''/tmp/tmpx/deck.pdf'')]\<rparr>
   \<and> main renderer_timeout_world ''deck.pptx'' ''thumbnails'' 4 150 =
     \<lparr>stdout = [], exit_status = 1,
      trace = [Run (soffice_argv renderer_timeout_world ''/work/deck.pptx'')]\<rparr>"
  by (simp add: main_def generate_thumbnails_def extract_raster_def compose_def locate_pdf_def
        no_raster_world_def renderer_timeout_world_def good_world_def Let_def)

text \<open>
  C6.  For a non-empty image sequence and at least one column, the image at index i is
  pasted with its top-left corner at (padding + col * (thumb_w + padding),
  padding + row * (thumb_h + padding + label_h) + label_h), where row = i // C and
  col = i % C, and the text drawn in the label strip of that cell is "Slide i" with the
  0-based index, for every i below N.
\<close>

theorem C6_placement_and_labels:
  assumes "images \<noteq> []" and "1 \<le> cols" and "0 < width (hd images)"
    and "i < length images"
  shows "\<exists>L g thumb. layout images cols = Inr L
     \<and> snd (build_grid images output_prefix cols) = [Save (output_prefix @ ''.jpg'') g]
     \<and> ops g ! (2 * i) =
           Paste thumb (10 + (int i mod cols) * (400 + 10),
                        10 + (int i div cols) * (thumb_height L + 10 + 20) + 20)
     \<and> source thumb = source (images ! i)
     \<and> ops g ! (2 * i + 1) =
           Label (10 + (int i mod cols) * (400 + 10) + 4,
                  10 + (int i div cols) * (thumb_height L + 10 + 20) + 2)
                 (''Slide '' @ str_int (int i))"
proof -
  from assms have "cols \<noteq> 0" and "width (hd images) \<noteq> 0" by simp_all
  note L = layout_Inr [OF assms(1) this]
  show ?thesis
    by (simp add: build_grid_Inr [OF L] L saved_ops [OF assms(4)] resize_def
          cell_x_def cell_y_def Let_def)
qed

theorem C6_placement_and_labels_witness:
  "three_pages \<noteq> [] \<and> (1::int) \<le> 2 \<and> 0 < width (hd three_pages)
   \<and> (2::nat) < length three_pages
   \<and> (\<exists>L g thumb. layout three_pages 2 = Inr L
        \<and> snd (build_grid three_pages ''thumbnails'' 2) = [Save ''thumbnails.jpg'' g]
        \<and> ops g ! 4 = Paste thumb (10, 285)
        \<and> source thumb = ''/tmp/tmpx/slide-3.jpg''
        \<and> ops g ! 5 = Label (14, 267) ''Slide 2'')"
  using C6_placement_and_labels [of three_pages 2 2 "''thumbnails''"]
  by (simp add: three_pages_def page_def odd_page_def layout_def int_truediv_def
        ceil_truediv_def ceil_quotient_def build_grid_def Let_def str_int_def str_nat.simps)

text \<open>
  C7 (as amended).  The page-rendering stage returns the error payload
  "PDF conversion failed: " followed by the renderer's standard error exactly when the
  renderer call returns and no PDF file is found in the temporary directory, and then
  nothing else is started.  The exit status of the renderer is not consulted: when a PDF
  file is found, the run is the same whatever the renderer returned.  A renderer call
  that raises (TimeoutExpired after 60 seconds) ends the run with that exception, not
  with an error payload.
\<close>

theorem C7_render_failure:
  "(soffice w = Inr r \<longrightarrow>
      (fst (generate_thumbnails w f output_prefix cols dpi) =
         Inr [(''error'', JStr (''PDF conversion failed: '' @ stderr r))]
       \<longleftrightarrow> \<not> pdf_path_exists w \<and> pdf_glob w = []))
   \<and> (soffice w = Inr r \<and> \<not> pdf_path_exists w \<and> pdf_glob w = [] \<longrightarrow>
        snd (generate_thumbnails w f output_prefix cols dpi) =
          [Run (soffice_argv w (absolute w f))])
   \<and> (soffice w = Inr r \<and> (pdf_path_exists w \<or> pdf_glob w \<noteq> []) \<longrightarrow>
        generate_thumbnails (w\<lparr>soffice := Inr r'\<rparr>) f output_prefix cols dpi =
        generate_thumbnails w f output_prefix cols dpi)
   \<and> (soffice w = Inl e \<longrightarrow>
        generate_thumbnails w f output_prefix cols dpi =
          (Inl e, [Run (soffice_argv w (absolute w f))]))"
proof (intro conjI impI)
  assume r: "soffice w = Inr r"
  show "fst (generate_thumbnails w f output_prefix cols dpi) =
         Inr [(''error'', JStr (''PDF conversion failed: '' @ stderr r))]
       \<longleftrightarrow> \<not> pdf_path_exists w \<and> pdf_glob w = []"
  proof (cases "locate_pdf w (absolute w f)")
    case None
    then have "\<not> pdf_path_exists w \<and> pdf_glob w = []"
      by (simp add: locate_pdf_def split: if_splits list.splits)
    then show ?thesis by (simp add: generate_thumbnails_no_pdf [OF r None])
  next
    case (Some pdf)
    then have found: "pdf_path_exists w \<or> pdf_glob w \<noteq> []"
      by (auto simp add: locate_pdf_def split: if_splits)
    note gt = generate_thumbnails_rendered [OF r Some, of output_prefix cols dpi]
    obtain x spawned where ex: "extract_raster w pdf dpi = (x, spawned)"
      by (cases "extract_raster w pdf dpi")
    have "fst (generate_thumbnails w f output_prefix cols dpi) \<noteq>
         Inr [(''error'', JStr (''PDF conversion failed: '' @ stderr r))]"
    proof (cases x)
      case (Inl e)
      then show ?thesis by (simp add: gt ex)
    next
      case (Inr slide_images)
      show ?thesis
      proof (cases "slide_images = []")
        case True
        then show ?thesis by (simp add: gt ex Inr compose_def)
      next
        case False
        have "(\<exists>e. fst (compose w slide_images output_prefix cols) = Inl e) \<or>
              (\<exists>d. fst (compose w slide_images output_prefix cols) = Inr d \<and> is_success d)"
        proof (cases "load_images w slide_images")
          case (Inl e)
          with False show ?thesis by (simp add: compose_def)
        next
          case (Inr images)
          with False build_grid_shapes [of images output_prefix cols] show ?thesis
            by (auto simp add: compose_def)
        qed
        then show ?thesis
          by (auto simp add: gt ex Inr split: prod.splits)
      qed
    qed
    with found show ?thesis by simp
  qed
next
  assume "soffice w = Inr r \<and> \<not> pdf_path_exists w \<and> pdf_glob w = []"
  then show "snd (generate_thumbnails w f output_prefix cols dpi) =
          [Run (soffice_argv w (absolute w f))]"
    by (simp add: generate_thumbnails_def locate_pdf_def Let_def)
next
  assume "soffice w = Inr r \<and> (pdf_path_exists w \<or> pdf_glob w \<noteq> [])"
  then obtain pdf where pdf: "locate_pdf w (absolute w f) = Some pdf" and r: "soffice w = Inr r"
    by (cases "pdf_glob w"; cases "pdf_path_exists w") (simp_all add: locate_pdf_def)
  have "generate_thumbnails (w\<lparr>soffice := Inr r'\<rparr>) f output_prefix cols dpi =
    (case extract_raster w pdf dpi of
       (Inl e, spawned) \<Rightarrow> (Inl e, Run (soffice_argv w (absolute w f)) # spawned)
     | (Inr slide_images, spawned) \<Rightarrow>
         (case compose w slide_images output_prefix cols of
            (r, written) \<Rightarrow> (r, Run (soffice_argv w (absolute w f)) # spawned @ written)))"
    using generate_thumbnails_rendered [of "w\<lparr>soffice := Inr r'\<rparr>" r' f pdf output_prefix cols dpi]
      pdf by (simp split: prod.splits sum.splits)
  then show "generate_thumbnails (w\<lparr>soffice := Inr r'\<rparr>) f output_prefix cols dpi =
        generate_thumbnails w f output_prefix cols dpi"
    by (simp add: generate_thumbnails_rendered [OF r pdf])
next
  assume "soffice w = Inl e"
  then show "generate_thumbnails w f output_prefix cols dpi =
          (Inl e, [Run (soffice_argv w (absolute w f))])"
    by (rule generate_thumbnails_raised)
qed

theorem C7_render_failure_witness:
  "soffice no_pdf_world =
     Inr \<lparr>returncode = 1, stderr = ''Error: source file could not be loaded''\<rparr>
   \<and> \<not> pdf_path_exists no_pdf_world \<and> pdf_glob no_pdf_world = []
   \<and> generate_thumbnails no_pdf_world ''deck.pptx'' ''thumbnails'' 4 150 =
       (Inr [(''error'', JStr ''PDF conversion failed: Error: source file could not be loaded'')],
        [Run (soffice_argv no_pdf_world ''/work/deck.pptx'')])
   \<and> soffice renderer_timeout_world = Inl TimeoutExpired
   \<and> generate_thumbnails renderer_timeout_world ''deck.pptx'' ''thumbnails'' 4 150 =
       (Inl TimeoutExpired, [Run (soffice_argv renderer_timeout_world ''/work/deck.pptx'')])
   \<and> soffice good_world = Inr exited_ok \<and> pdf_path_exists good_world
   \<and> generate_thumbnails (good_world\<lparr>soffice := Inr \<lparr>returncode = 1, stderr = ''''\<rparr>\<rparr>)
         ''deck.pptx'' ''thumbnails'' 4 150 =
       generate_thumbnails good_world ''deck.pptx'' ''thumbnails'' 4 150"
  using
    C7_render_failure [of no_pdf_world
      "\<lparr>returncode = 1, stderr = ''Error: source file could not be loaded''\<rparr>"
      "''deck.pptx''" "''thumbnails''" 4 150 exited_ok TimeoutExpired]
    C7_render_failure [of renderer_timeout_world exited_ok
      "''deck.pptx''" "''thumbnails''" 4 150 exited_ok TimeoutExpired]
    C7_render_failure [of good_world exited_ok
      "''deck.pptx''" "''thumbnails''" 4 150 "\<lparr>returncode = 1, stderr = ''''\<rparr>" TimeoutExpired]
  by (simp add: no_pdf_world_def renderer_timeout_world_def good_world_def prod_eq_iff)

theorem C7_exit_status_counterexample:
  "soffice renderer_status_world =
     Inr \<lparr>returncode = 1, stderr = ''javaldx: Could not find a Java Runtime Environment!''\<rparr>
   \<and> fst (generate_thumbnails renderer_status_world ''deck.pptx'' ''thumbnails'' 2 150) =
       Inr [(''output'', JStr ''thumbnails.jpg''), (''slides'', JInt 3), (''grid'', JStr ''2x2'')]
   \<and> fst (generate_thumbnails renderer_timeout_world ''deck.pptx'' ''thumbnails'' 2 150) =
       Inl TimeoutExpired"
  by (simp add: renderer_status_world_def renderer_timeout_world_def good_world_def
        generate_thumbnails_def locate_pdf_def extract_raster_def compose_def build_grid_def
        layout_def int_truediv_def ceil_truediv_def ceil_quotient_def page_def odd_page_def Let_def
        str_int_def str_nat.simps)

text \<open>
  C8 (as amended).  Every pipeline run that returns (instead of raising, as a run does
  whose converter times out) returns exactly one of two mutually exclusive variants, the
  success payload with output path, slide count and grid descriptor, or the error payload
  with the error message, never both; and the output file is written only in a run that
  returns the success payload, as the last thing the run does.
\<close>

theorem C8_result_variants:
  "(\<forall>d. fst (generate_thumbnails w f output_prefix cols dpi) = Inr d \<longrightarrow>
        (is_success d \<and> \<not> is_error d) \<or> (is_error d \<and> \<not> is_success d))
   \<and> ((\<exists>ev \<in> set (snd (generate_thumbnails w f output_prefix cols dpi)). is_write ev) \<longleftrightarrow>
        (\<exists>d. fst (generate_thumbnails w f output_prefix cols dpi) = Inr d \<and> is_success d))
   \<and> length (filter is_write (snd (generate_thumbnails w f output_prefix cols dpi))) \<le> 1
   \<and> (\<forall>ev \<in> set (butlast (snd (generate_thumbnails w f output_prefix cols dpi))).
        \<not> is_write ev)"
  using generate_thumbnails_shapes [of w f output_prefix cols dpi]
  by (elim disjE exE conjE) (auto simp add: butlast_append dest: in_set_butlastD)

theorem C8_result_variants_witness:
  "fst (generate_thumbnails good_world ''deck.pptx'' ''thumbnails'' 2 150) =
     Inr [(''output'', JStr ''thumbnails.jpg''), (''slides'', JInt 3), (''grid'', JStr ''2x2'')]
   \<and> is_success [(''output'', JStr ''thumbnails.jpg''), (''slides'', JInt 3), (''grid'', JStr ''2x2'')]
   \<and> \<not> is_error [(''output'', JStr ''thumbnails.jpg''), (''slides'', JInt 3), (''grid'', JStr ''2x2'')]
   \<and> (\<exists>ev \<in> set (snd (generate_thumbnails good_world ''deck.pptx'' ''thumbnails'' 2 150)).
         is_write ev)
   \<and> length (filter is_write
         (snd (generate_thumbnails good_world ''deck.pptx'' ''thumbnails'' 2 150))) \<le> 1
   \<and> filter is_write
         (butlast (snd (generate_thumbnails good_world ''deck.pptx'' ''thumbnails'' 2 150))) = []"
  using C8_result_variants [of good_world "''deck.pptx''" "''thumbnails''" 2 150]
  by (simp add: good_world_def
        generate_thumbnails_def locate_pdf_def extract_raster_def compose_def build_grid_def
        layout_def int_truediv_def ceil_truediv_def ceil_quotient_def page_def odd_page_def Let_def
        str_int_def str_nat.simps)

theorem C8_raising_run_counterexample:
  "generate_thumbnails extractor_timeout_world ''deck.pptx'' ''thumbnails'' 4 150 =
     (Inl TimeoutExpired,
      [Run (soffice_argv extractor_timeout_world ''/work/deck.pptx''),
       Run (pdftoppm_argv extractor_timeout_world ''-jpeg'' 150 ''/tmp/tmpx/deck.pdf'')])"
  by (simp add: extractor_timeout_world_def good_world_def
        generate_thumbnails_def locate_pdf_def extract_raster_def Let_def)







end
